theory Spec2Isabelle
  imports Complex_Main "HOL-Library.Log_Nat"
begin

section \<open>Data model of \<open>financial_projections.py\<close>\<close>

text \<open>
  The script has two functions with content: \<open>run_single_simulation\<close>, which fills four
  lists of weekly balances, and \<open>simulate\<close>, which calls it \<open>n\<close> times and derives the
  numbers shown in the histogram titles. Python's numbers are modelled as \<open>real\<close>
  and the week count as \<open>int\<close>: the arithmetic of the source is read as exact
  arithmetic, and the theorems about this model state the operations of the source in
  the order of the source. What rounding to binary64 does to the ISA update is the
  subject of a second, separate model further down, in which every operation rounds.

  The names bound in the body of \<open>simulate\<close> and handed to \<open>run_single_simulation\<close> by
  keyword are the fields of the record \<open>config\<close>, in the order of the parameter list of
  \<open>run_single_simulation\<close>.
\<close>

record config =
  current_account_balance_now :: real
  savings_account_balance_now :: real
  savings_account_interest :: real
  lisa_balance_now :: real
  isa_balance_now :: real
  isa_weekly_payment :: real
  isa_stdev :: real
  isa_mean :: real
  lisa_stdev :: real
  lisa_mean :: real
  lisa_weekly_payment :: real
  weekly_spendings_mean :: real
  weekly_spendings_stdev :: real
  annual_inflow :: real
  n_weeks :: int

text \<open>The four lists of one run; the dictionary returned has exactly these four keys.\<close>

record accounts =
  savings_account :: "real list"
  current_account :: "real list"
  lisa :: "real list"
  isa :: "real list"

text \<open>The exceptions that the modelled statements can raise.\<close>

datatype error = IndexError | ValueError | ZeroDivisionError

text \<open>Sequencing of statements: the first exception raised ends the computation.\<close>

definition bind_r :: "error + 'a \<Rightarrow> ('a \<Rightarrow> error + 'b) \<Rightarrow> error + 'b" where
  "bind_r m f = (case m of Inl e \<Rightarrow> Inl e | Inr x \<Rightarrow> f x)"

subsection \<open>List indexing\<close>

text \<open>
  \<open>xs[i]\<close> and \<open>xs[i] = v\<close> for an index \<open>i \<ge> 0\<close>: out of range raises \<open>IndexError\<close>.
  Every index of the source is \<open>0\<close>, \<open>week\<close> or \<open>week - 1\<close> with \<open>week\<close> drawn from
  \<open>range(1, n_weeks)\<close>, or \<open>i\<close> drawn from \<open>range(n)\<close>, hence never negative.
\<close>

definition getitem :: "'a list \<Rightarrow> nat \<Rightarrow> error + 'a" where
  "getitem xs i = (if i < length xs then Inr (xs ! i) else Inl IndexError)"

definition setitem :: "'a list \<Rightarrow> nat \<Rightarrow> 'a \<Rightarrow> error + 'a list" where
  "setitem xs i v = (if i < length xs then Inr (xs[i := v]) else Inl IndexError)"

subsection \<open>The random source\<close>

text \<open>
  The global generator of \<open>numpy.random\<close> is modelled by the sequence of standard normal
  variates it is going to deliver: \<open>g 0\<close> is the next one. \<open>np.random.normal(loc, scale)\<close>
  raises \<open>ValueError\<close> for a negative \<open>scale\<close>, and otherwise consumes one variate \<open>z\<close>
  and returns \<open>loc + scale * z\<close>. The scale \<open>0\<close> of this model is the zero \<open>+0.0\<close> of the
  source: numpy looks at the sign bit, and so rejects the negative zero \<open>-0.0\<close> as well,
  which the reals do not have.
\<close>

type_synonym rng = "nat \<Rightarrow> real"

definition normal_value :: "real \<Rightarrow> real \<Rightarrow> real \<Rightarrow> real" where
  "normal_value loc scale z = loc + scale * z"

definition advance :: "nat \<Rightarrow> rng \<Rightarrow> rng" where
  "advance k g = (\<lambda>i. g (i + k))"

definition normal :: "real \<Rightarrow> real \<Rightarrow> rng \<Rightarrow> error + real \<times> rng" where
  "normal loc scale g =
     (if scale < 0 then Inl ValueError
      else Inr (normal_value loc scale (g 0), advance 1 g))"

section \<open>\<open>run_single_simulation\<close>\<close>

text \<open>
  The body of the loop, one definition per account, each statement in the order in which
  Python evaluates it: the right-hand side before the store, and for \<open>x[week] += e\<close> the
  read of \<open>x[week]\<close> before \<open>e\<close>.
\<close>

definition update_savings ::
  "config \<Rightarrow> nat \<Rightarrow> real list \<times> rng \<Rightarrow> error + real list \<times> rng" where
  "update_savings cfg week s = (case s of (sa, g) \<Rightarrow>
     bind_r (getitem sa (week - 1)) (\<lambda>prev.
     bind_r (normal (weekly_spendings_mean cfg) (weekly_spendings_stdev cfg) g) (\<lambda>(spend, g1).
     bind_r (setitem sa week (prev + annual_inflow cfg / 52 - spend)) (\<lambda>sa1.
     bind_r (getitem sa1 week) (\<lambda>old.
     bind_r (getitem sa1 week) (\<lambda>cur.
     bind_r (setitem sa1 week (old + cur * (savings_account_interest cfg / 100) / 52)) (\<lambda>sa2.
     Inr (sa2, g1))))))))"

definition update_current :: "nat \<Rightarrow> real list \<Rightarrow> error + real list" where
  "update_current week ca =
     bind_r (getitem ca (week - 1)) (\<lambda>prev. setitem ca week prev)"

definition update_isa ::
  "config \<Rightarrow> nat \<Rightarrow> real list \<times> rng \<Rightarrow> error + real list \<times> rng" where
  "update_isa cfg week s = (case s of (xs, g) \<Rightarrow>
     bind_r (getitem xs (week - 1)) (\<lambda>prev.
     bind_r (setitem xs week (prev + isa_weekly_payment cfg)) (\<lambda>xs1.
     bind_r (getitem xs1 week) (\<lambda>old.
     bind_r (getitem xs1 week) (\<lambda>cur.
     bind_r (normal ((isa_mean cfg / 100) / 52) ((isa_stdev cfg / 100) / sqrt 52) g) (\<lambda>(rate, g1).
     bind_r (setitem xs1 week (old + cur * rate)) (\<lambda>xs2.
     Inr (xs2, g1))))))))"

definition update_lisa ::
  "config \<Rightarrow> nat \<Rightarrow> real list \<times> rng \<Rightarrow> error + real list \<times> rng" where
  "update_lisa cfg week s = (case s of (xs, g) \<Rightarrow>
     bind_r (getitem xs (week - 1)) (\<lambda>prev.
     bind_r (setitem xs week (prev + lisa_weekly_payment cfg * 1.25)) (\<lambda>xs1.
     bind_r (getitem xs1 week) (\<lambda>old.
     bind_r (getitem xs1 week) (\<lambda>cur.
     bind_r (normal ((lisa_mean cfg / 100) / 52) ((lisa_stdev cfg / 100) / sqrt 52) g) (\<lambda>(rate, g1).
     bind_r (setitem xs1 week (old + cur * rate)) (\<lambda>xs2.
     Inr (xs2, g1))))))))"

definition week_update :: "config \<Rightarrow> nat \<Rightarrow> accounts \<times> rng \<Rightarrow> error + accounts \<times> rng" where
  "week_update cfg week s = (case s of (a, g) \<Rightarrow>
     bind_r (update_savings cfg week (savings_account a, g)) (\<lambda>(sa, g1).
     bind_r (update_current week (current_account a)) (\<lambda>ca.
     bind_r (update_isa cfg week (isa a, g1)) (\<lambda>(ia, g2).
     bind_r (update_lisa cfg week (lisa a, g2)) (\<lambda>(la, g3).
     Inr (\<lparr>savings_account = sa, current_account = ca, lisa = la, isa = ia\<rparr>, g3))))))"

text \<open>\<open>for week in range(1, n_weeks)\<close>, given the list of the weeks still to run.\<close>

fun week_loop :: "config \<Rightarrow> nat list \<Rightarrow> accounts \<times> rng \<Rightarrow> error + accounts \<times> rng" where
  "week_loop cfg [] s = Inr s"
| "week_loop cfg (week # weeks) s = bind_r (week_update cfg week s) (week_loop cfg weeks)"

text \<open>
  The statements before the loop: four lists \<open>[0]*n_weeks\<close> (empty when \<open>n_weeks \<le> 0\<close>), then
  the four stores at index \<open>0\<close> in the order \<open>lisa\<close>, \<open>savings_account\<close>,
  \<open>current_account\<close>, \<open>isa\<close>.
\<close>

definition initialise :: "config \<Rightarrow> error + accounts" where
  "initialise cfg =
     (let zeros = replicate (nat (n_weeks cfg)) (0::real) in
      bind_r (setitem zeros 0 (lisa_balance_now cfg)) (\<lambda>la.
      bind_r (setitem zeros 0 (savings_account_balance_now cfg)) (\<lambda>sa.
      bind_r (setitem zeros 0 (current_account_balance_now cfg)) (\<lambda>ca.
      bind_r (setitem zeros 0 (isa_balance_now cfg)) (\<lambda>ia.
      Inr \<lparr>savings_account = sa, current_account = ca, lisa = la, isa = ia\<rparr>)))))"

definition run_single_simulation :: "config \<Rightarrow> rng \<Rightarrow> error + accounts \<times> rng" where
  "run_single_simulation cfg g =
     bind_r (initialise cfg) (\<lambda>a. week_loop cfg [1..<nat (n_weeks cfg)] (a, g))"

section \<open>\<open>simulate\<close>\<close>

text \<open>
  \<open>simulate(n)\<close> binds the settings as local names, runs \<open>n\<close> simulations, keeps the four
  lists of every run, draws the charts and computes the numbers put into their titles.
  The model takes the settings as the argument \<open>cfg\<close>, so that a theorem can speak about
  every choice of them; \<open>settings\<close> below are the values written in the source. The
  calls of \<open>matplotlib\<close> and the formatting of dates and titles are left out: they do
  not change any of the values modelled here.
\<close>

definition settings :: config where
  "settings =
     \<lparr>current_account_balance_now = 100, savings_account_balance_now = 1000,
      savings_account_interest = 4, lisa_balance_now = 1000, isa_balance_now = 1000,
      isa_weekly_payment = 10, isa_stdev = 12, isa_mean = 8, lisa_stdev = 8, lisa_mean = 4,
      lisa_weekly_payment = 10, weekly_spendings_mean = 300, weekly_spendings_stdev = 100,
      annual_inflow = 10000 + 100 * 30 + 3000, n_weeks = 52\<rparr>"

record results =
  savings_account_results :: "real list list"
  current_account_results :: "real list list"
  isa_results :: "real list list"
  lisa_results :: "real list list"

definition append_results :: "results \<Rightarrow> accounts \<Rightarrow> results" where
  "append_results r sim_results =
     \<lparr>savings_account_results = savings_account_results r @ [savings_account sim_results],
      current_account_results = current_account_results r @ [current_account sim_results],
      isa_results = isa_results r @ [isa sim_results],
      lisa_results = lisa_results r @ [lisa sim_results]\<rparr>"

text \<open>
  \<open>for i in range(n)\<close>, by the number of iterations still to run. Every run continues
  with the generator as the run before left it.
\<close>

fun run_all :: "config \<Rightarrow> nat \<Rightarrow> results \<times> rng \<Rightarrow> error + results \<times> rng" where
  "run_all cfg 0 s = Inr s"
| "run_all cfg (Suc k) s = (case s of (r, g) \<Rightarrow>
     bind_r (run_single_simulation cfg g) (\<lambda>(sim_results, g1).
     run_all cfg k (append_results r sim_results, g1)))"

text \<open>A list comprehension \<open>[f(x) for x in xs]\<close>, evaluated from the left.\<close>

fun comprehension :: "('a \<Rightarrow> error + 'b) \<Rightarrow> 'a list \<Rightarrow> error + 'b list" where
  "comprehension f [] = Inr []"
| "comprehension f (x # xs) =
     bind_r (f x) (\<lambda>y. bind_r (comprehension f xs) (\<lambda>ys. Inr (y # ys)))"

text \<open>\<open>xs[-1]\<close>.\<close>

definition last_item :: "'a list \<Rightarrow> error + 'a" where
  "last_item xs = (if xs = [] then Inl IndexError else Inr (last xs))"

text \<open>
  \<open>len(finals[finals < reference]) / n * 100\<close>: the division of one Python integer by
  another raises \<open>ZeroDivisionError\<close> when \<open>n\<close> is \<open>0\<close>.
\<close>

definition p_lower :: "real list \<Rightarrow> real \<Rightarrow> nat \<Rightarrow> error + real" where
  "p_lower finals reference n =
     (if n = 0 then Inl ZeroDivisionError
      else Inr (real (length (filter (\<lambda>v. v < reference) finals)) / real n * 100))"

text \<open>
  \<open>np.mean\<close>. It is only reached after \<open>p_lower\<close> has been computed, hence for \<open>n > 0\<close>
  and a list of \<open>n\<close> values.
\<close>

definition np_mean :: "real list \<Rightarrow> real" where
  "np_mean xs = sum_list xs / real (length xs)"

text \<open>
  What \<open>simulate\<close> has computed when it ends. The source assigns \<open>p_lower\<close> twice; the
  two values are the fields \<open>p_lower_current_and_savings\<close> and \<open>p_lower_total\<close>.
\<close>

record summary =
  all_results :: results
  savings_account_final :: "real list"
  current_account_final :: "real list"
  current_and_savings_final :: "real list"
  isa_final :: "real list"
  lisa_final :: "real list"
  total_final :: "real list"
  p_lower_current_and_savings :: real
  mean_current_and_savings :: real
  total_start :: real
  p_lower_total :: real
  mean_total :: real

definition simulate :: "config \<Rightarrow> nat \<Rightarrow> rng \<Rightarrow> error + summary" where
  "simulate cfg n g =
     bind_r (run_all cfg n
        (\<lparr>savings_account_results = [], current_account_results = [],
          isa_results = [], lisa_results = []\<rparr>, g)) (\<lambda>(r, g1).
     bind_r (comprehension last_item (savings_account_results r)) (\<lambda>savings_final.
     bind_r (comprehension last_item (current_account_results r)) (\<lambda>current_final.
     bind_r (comprehension (\<lambda>i.
        bind_r (getitem savings_final i) (\<lambda>s.
        bind_r (getitem current_final i) (\<lambda>c. Inr (s + c)))) [0..<n]) (\<lambda>both_final.
     bind_r (comprehension last_item (isa_results r)) (\<lambda>isa_fin.
     bind_r (comprehension last_item (lisa_results r)) (\<lambda>lisa_fin.
     bind_r (comprehension (\<lambda>i.
        bind_r (getitem savings_final i) (\<lambda>s.
        bind_r (getitem current_final i) (\<lambda>c.
        bind_r (getitem isa_fin i) (\<lambda>x.
        bind_r (getitem lisa_fin i) (\<lambda>y. Inr (s + c + x + y)))))) [0..<n]) (\<lambda>tot_final.
     bind_r (p_lower both_final 0 n) (\<lambda>p_both.
     (let start = current_account_balance_now cfg + savings_account_balance_now cfg
                  + isa_balance_now cfg + lisa_balance_now cfg in
     bind_r (p_lower tot_final start n) (\<lambda>p_total.
     Inr \<lparr>all_results = r,
         savings_account_final = savings_final, current_account_final = current_final,
         current_and_savings_final = both_final, isa_final = isa_fin, lisa_final = lisa_fin,
         total_final = tot_final, p_lower_current_and_savings = p_both,
         mean_current_and_savings = np_mean both_final, total_start = start,
         p_lower_total = p_total, mean_total = np_mean tot_final\<rparr>))))))))))"

section \<open>The ISA update in binary64\<close>

text \<open>
  The finite binary64 numbers are rationals; \<open>round64\<close> is rounding to the nearest one,
  ties to the even significand, for values in the normal range (the balances and rates
  considered here are; overflow and subnormal numbers are not modelled). For \<open>x > 0\<close>,
  \<open>exponent x\<close> is the integer \<open>e\<close> with \<open>2 ^ e \<le> x < 2 ^ (e + 1)\<close>, so that the
  significand \<open>x / 2 ^ (e - 52)\<close> lies between \<open>2 ^ 52\<close> and \<open>2 ^ 53\<close>. Python's \<open>+\<close>,
  \<open>*\<close> and \<open>/\<close> on floats, and \<open>/\<close> on two integers, return the exact result rounded.
\<close>

definition pow2 :: "int \<Rightarrow> rat" where
  "pow2 e = (if 0 \<le> e then 2 ^ nat e else 1 / 2 ^ nat (- e))"

definition round_half_even :: "rat \<Rightarrow> int" where
  "round_half_even x =
     (let f = \<lfloor>x\<rfloor>; d = x - of_int f
      in if d < 1 / 2 then f else if 1 / 2 < d then f + 1 else if even f then f else f + 1)"

definition exponent :: "rat \<Rightarrow> int" where
  "exponent x =
     (if 1 \<le> x then bitlen \<lfloor>x\<rfloor> - 1 else - bitlen (\<lceil>1 / x\<rceil> - 1))"

definition round64 :: "rat \<Rightarrow> rat" where
  "round64 x =
     (if x = 0 then 0
      else let e = exponent \<bar>x\<bar> - 52
           in sgn x * of_int (round_half_even (\<bar>x\<bar> / pow2 e)) * pow2 e)"

definition fadd :: "rat \<Rightarrow> rat \<Rightarrow> rat" where
  "fadd a b = round64 (a + b)"

definition fmul :: "rat \<Rightarrow> rat \<Rightarrow> rat" where
  "fmul a b = round64 (a * b)"

definition fdiv :: "rat \<Rightarrow> rat \<Rightarrow> rat" where
  "fdiv a b = round64 (a / b)"

text \<open>\<open>np.sqrt(52)\<close>: the binary64 number nearest to the square root of \<open>52\<close>.\<close>

definition sqrt52_binary64 :: rat where
  "sqrt52_binary64 = 8118979690322419 / 1125899906842624"

text \<open>The value of \<open>np.random.normal(loc, scale)\<close> for the variate \<open>z\<close>.\<close>

definition normal_binary64 :: "rat \<Rightarrow> rat \<Rightarrow> rat \<Rightarrow> rat" where
  "normal_binary64 loc scale z = fadd loc (fmul scale z)"

text \<open>
  The two statements that update the ISA, from the balance of the week before:
  \<open>isa[week] = isa[week-1] + isa_weekly_payment\<close>, then
  \<open>isa[week] += isa[week] * np.random.normal(loc=(isa_mean/100) / 52,
  scale=(isa_stdev/100) / np.sqrt(52))\<close>.
\<close>

definition isa_week_binary64 :: "rat \<Rightarrow> rat \<Rightarrow> rat \<Rightarrow> rat \<Rightarrow> rat \<Rightarrow> rat" where
  "isa_week_binary64 prev payment mean stdev z =
     (let balance = fadd prev payment;
          rate = normal_binary64 (fdiv (fdiv mean 100) 52)
                   (fdiv (fdiv stdev 100) sqrt52_binary64) z
      in fadd balance (fmul balance rate))"


section \<open>Auxiliary definitions for the proofs\<close>

text \<open>
  The three stochastic updates as functions of the previous balance and of the variate
  consumed, and the balances they generate from the initial ones. Week \<open>w + 1\<close> consumes
  the variates \<open>3 * w\<close> (spending), \<open>3 * w + 1\<close> (ISA) and \<open>3 * w + 2\<close> (LISA) of the run.
\<close>

definition savings_next :: "config \<Rightarrow> real \<Rightarrow> real \<Rightarrow> real" where
  "savings_next cfg prev z =
     (let balance = prev + annual_inflow cfg / 52
                    - normal_value (weekly_spendings_mean cfg) (weekly_spendings_stdev cfg) z
      in balance + balance * (savings_account_interest cfg / 100) / 52)"

definition isa_next :: "config \<Rightarrow> real \<Rightarrow> real \<Rightarrow> real" where
  "isa_next cfg prev z =
     (let balance = prev + isa_weekly_payment cfg
      in balance + balance *
           normal_value ((isa_mean cfg / 100) / 52) ((isa_stdev cfg / 100) / sqrt 52) z)"

definition lisa_next :: "config \<Rightarrow> real \<Rightarrow> real \<Rightarrow> real" where
  "lisa_next cfg prev z =
     (let balance = prev + lisa_weekly_payment cfg * 1.25
      in balance + balance *
           normal_value ((lisa_mean cfg / 100) / 52) ((lisa_stdev cfg / 100) / sqrt 52) z)"

fun savings_at :: "config \<Rightarrow> rng \<Rightarrow> nat \<Rightarrow> real" where
  "savings_at cfg g 0 = savings_account_balance_now cfg"
| "savings_at cfg g (Suc w) = savings_next cfg (savings_at cfg g w) (g (3 * w))"

fun isa_at :: "config \<Rightarrow> rng \<Rightarrow> nat \<Rightarrow> real" where
  "isa_at cfg g 0 = isa_balance_now cfg"
| "isa_at cfg g (Suc w) = isa_next cfg (isa_at cfg g w) (g (3 * w + 1))"

fun lisa_at :: "config \<Rightarrow> rng \<Rightarrow> nat \<Rightarrow> real" where
  "lisa_at cfg g 0 = lisa_balance_now cfg"
| "lisa_at cfg g (Suc w) = lisa_next cfg (lisa_at cfg g w) (g (3 * w + 2))"

text \<open>A list of length \<open>n\<close> whose first \<open>k\<close> entries are computed and whose rest is still \<open>0\<close>.\<close>

definition filled :: "(nat \<Rightarrow> real) \<Rightarrow> nat \<Rightarrow> nat \<Rightarrow> real list" where
  "filled f n k = map f [0..<k] @ replicate (n - k) 0"

definition after_weeks :: "config \<Rightarrow> rng \<Rightarrow> nat \<Rightarrow> nat \<Rightarrow> accounts" where
  "after_weeks cfg g n k =
     \<lparr>savings_account = filled (savings_at cfg g) n k,
      current_account = filled (\<lambda>_. current_account_balance_now cfg) n k,
      lisa = filled (lisa_at cfg g) n k,
      isa = filled (isa_at cfg g) n k\<rparr>"

definition trajectory :: "config \<Rightarrow> rng \<Rightarrow> accounts" where
  "trajectory cfg g =
     (let n = nat (n_weeks cfg) in
      \<lparr>savings_account = map (savings_at cfg g) [0..<n],
       current_account = map (\<lambda>_. current_account_balance_now cfg) [0..<n],
       lisa = map (lisa_at cfg g) [0..<n],
       isa = map (isa_at cfg g) [0..<n]\<rparr>)"

definition stdevs_nonneg :: "config \<Rightarrow> bool" where
  "stdevs_nonneg cfg \<longleftrightarrow>
     0 \<le> weekly_spendings_stdev cfg \<and> 0 \<le> isa_stdev cfg \<and> 0 \<le> lisa_stdev cfg"

definition first_entries :: "accounts \<Rightarrow> real \<times> real \<times> real \<times> real" where
  "first_entries a = (savings_account a ! 0, current_account a ! 0, isa a ! 0, lisa a ! 0)"

subsection \<open>A run of three weeks, used to instantiate the theorems\<close>

definition example_config :: config where
  "example_config =
     \<lparr>current_account_balance_now = 100, savings_account_balance_now = 1000,
      savings_account_interest = 52, lisa_balance_now = 1000, isa_balance_now = 1000,
      isa_weekly_payment = 10, isa_stdev = 1, isa_mean = 52, lisa_stdev = 2, lisa_mean = 104,
      lisa_weekly_payment = 8, weekly_spendings_mean = 50, weekly_spendings_stdev = 10,
      annual_inflow = 5200, n_weeks = 3\<rparr>"

definition example_draws :: rng where
  "example_draws k = (if k mod 3 = 0 then 1 else sqrt 52)"

definition example_accounts :: accounts where
  "example_accounts =
     \<lparr>savings_account = [1000, 1050.4, 1101.304],
      current_account = [100, 100, 100],
      lisa = [1000, 1050.4, 1102.816],
      isa = [1000, 1030.2, 1061.004]\<rparr>"

definition late_draws :: rng where
  "late_draws k = (if k < 6 then example_draws k else 0)"

subsection \<open>Settings without any spread\<close>



text \<open>The scenario in which nothing moves: no income, no spending, no growth, five weeks.\<close>

definition scenario_config :: config where
  "scenario_config =
     \<lparr>current_account_balance_now = 100, savings_account_balance_now = 1000,
      savings_account_interest = 0, lisa_balance_now = 1000, isa_balance_now = 1000,
      isa_weekly_payment = 0, isa_stdev = 0, isa_mean = 0, lisa_stdev = 0, lisa_mean = 0,
      lisa_weekly_payment = 0, weekly_spendings_mean = 0, weekly_spendings_stdev = 0,
      annual_inflow = 0, n_weeks = 5\<rparr>"

definition scenario_accounts :: accounts where
  "scenario_accounts =
     \<lparr>savings_account = replicate 5 1000, current_account = replicate 5 100,
      lisa = replicate 5 1000, isa = replicate 5 1000\<rparr>"

definition repeated_results :: "results \<Rightarrow> nat \<Rightarrow> accounts \<Rightarrow> results" where
  "repeated_results r k a =
     \<lparr>savings_account_results = savings_account_results r @ replicate k (savings_account a),
      current_account_results = current_account_results r @ replicate k (current_account a),
      isa_results = isa_results r @ replicate k (isa a),
      lisa_results = lisa_results r @ replicate k (lisa a)\<rparr>"

subsection \<open>Two runs of two weeks, one ending below zero and one above\<close>

definition coin_config :: config where
  "coin_config =
     \<lparr>current_account_balance_now = 0, savings_account_balance_now = 0,
      savings_account_interest = 0, lisa_balance_now = 0, isa_balance_now = 0,
      isa_weekly_payment = 0, isa_stdev = 0, isa_mean = 0, lisa_stdev = 0, lisa_mean = 0,
      lisa_weekly_payment = 0, weekly_spendings_mean = 0, weekly_spendings_stdev = 1,
      annual_inflow = 0, n_weeks = 2\<rparr>"

definition coin_draws :: rng where
  "coin_draws k = (if k < 3 then 1 else - 1)"

definition coin_summary :: summary where
  "coin_summary =
     \<lparr>all_results =
        \<lparr>savings_account_results = [[0, - 1], [0, 1]], current_account_results = [[0, 0], [0, 0]],
         isa_results = [[0, 0], [0, 0]], lisa_results = [[0, 0], [0, 0]]\<rparr>,
      savings_account_final = [- 1, 1], current_account_final = [0, 0],
      current_and_savings_final = [- 1, 1], isa_final = [0, 0], lisa_final = [0, 0],
      total_final = [- 1, 1], p_lower_current_and_savings = 50,
      mean_current_and_savings = 0, total_start = 0, p_lower_total = 50, mean_total = 0\<rparr>"

definition in_unit_interval :: "real \<Rightarrow> bool" where
  "in_unit_interval x \<longleftrightarrow> 0 \<le> x \<and> x \<le> 1"

section \<open>Statements in sequence, indexing, the random source\<close>

lemma bind_r_Inr [simp]: "bind_r (Inr x) f = f x"
  by (simp add: bind_r_def)

lemma bind_r_Inl [simp]: "bind_r (Inl e) f = Inl e"
  by (simp add: bind_r_def)

lemma getitem_in_range: "i < length xs \<Longrightarrow> getitem xs i = Inr (xs ! i)"
  by (simp add: getitem_def)

lemma setitem_in_range: "i < length xs \<Longrightarrow> setitem xs i v = Inr (xs[i := v])"
  by (simp add: setitem_def)

lemma normal_nonneg: "0 \<le> scale \<Longrightarrow> normal loc scale g = Inr (normal_value loc scale (g 0), advance 1 g)"
  by (simp add: normal_def)

lemma normal_neg: "scale < 0 \<Longrightarrow> normal loc scale g = Inl ValueError"
  by (simp add: normal_def)

lemma advance_advance: "advance j (advance k g) = advance (k + j) g"
  by (simp add: advance_def fun_eq_iff ac_simps)

lemma advance_apply: "advance k g i = g (i + k)"
  by (simp add: advance_def)

lemma advance_0: "advance 0 g = g"
  by (simp add: advance_def)

lemma update_savings_ok:
  assumes "1 \<le> week" "week < length sa" "0 \<le> weekly_spendings_stdev cfg"
  shows "update_savings cfg week (sa, g) =
           Inr (sa[week := savings_next cfg (sa ! (week - 1)) (g 0)], advance 1 g)"
  using assms
  by (simp add: update_savings_def getitem_in_range setitem_in_range normal_nonneg savings_next_def Let_def)

lemma update_savings_neg:
  assumes "1 \<le> week" "week < length sa" "weekly_spendings_stdev cfg < 0"
  shows "update_savings cfg week (sa, g) = Inl ValueError"
  using assms
  by (simp add: update_savings_def getitem_in_range normal_neg)

lemma update_current_ok:
  assumes "1 \<le> week" "week < length ca"
  shows "update_current week ca = Inr (ca[week := ca ! (week - 1)])"
  using assms by (simp add: update_current_def getitem_in_range setitem_in_range)

lemma update_isa_ok:
  assumes "1 \<le> week" "week < length xs" "0 \<le> isa_stdev cfg"
  shows "update_isa cfg week (xs, g) =
           Inr (xs[week := isa_next cfg (xs ! (week - 1)) (g 0)], advance 1 g)"
  using assms
  by (simp add: update_isa_def getitem_in_range setitem_in_range normal_nonneg isa_next_def Let_def)

lemma update_isa_neg:
  assumes "1 \<le> week" "week < length xs" "isa_stdev cfg < 0"
  shows "update_isa cfg week (xs, g) = Inl ValueError"
  using assms
  by (simp add: update_isa_def getitem_in_range setitem_in_range normal_neg divide_neg_pos)

lemma update_lisa_ok:
  assumes "1 \<le> week" "week < length xs" "0 \<le> lisa_stdev cfg"
  shows "update_lisa cfg week (xs, g) =
           Inr (xs[week := lisa_next cfg (xs ! (week - 1)) (g 0)], advance 1 g)"
  using assms
  by (simp add: update_lisa_def getitem_in_range setitem_in_range normal_nonneg lisa_next_def Let_def)

lemma update_lisa_neg:
  assumes "1 \<le> week" "week < length xs" "lisa_stdev cfg < 0"
  shows "update_lisa cfg week (xs, g) = Inl ValueError"
  using assms
  by (simp add: update_lisa_def getitem_in_range setitem_in_range normal_neg divide_neg_pos)

lemma week_update_ok:
  assumes "1 \<le> week" "stdevs_nonneg cfg"
    and "week < length (savings_account a)" "week < length (current_account a)"
    and "week < length (isa a)" "week < length (lisa a)"
  shows "week_update cfg week (a, g) =
           Inr (\<lparr>savings_account = (savings_account a)[week := savings_next cfg (savings_account a ! (week - 1)) (g 0)],
                 current_account = (current_account a)[week := current_account a ! (week - 1)],
                 lisa = (lisa a)[week := lisa_next cfg (lisa a ! (week - 1)) (g 2)],
                 isa = (isa a)[week := isa_next cfg (isa a ! (week - 1)) (g 1)]\<rparr>,
                advance 3 g)"
  using assms
  by (simp add: week_update_def stdevs_nonneg_def update_savings_ok update_current_ok
      update_isa_ok update_lisa_ok advance_advance advance_apply numeral_2_eq_2 numeral_3_eq_3)

lemma week_update_neg:
  assumes "1 \<le> week" "\<not> stdevs_nonneg cfg"
    and "week < length (savings_account a)" "week < length (current_account a)"
    and "week < length (isa a)" "week < length (lisa a)"
  shows "week_update cfg week (a, g) = Inl ValueError"
proof (cases "weekly_spendings_stdev cfg < 0")
  case True
  with assms show ?thesis by (simp add: week_update_def update_savings_neg)
next
  case sp: False
  show ?thesis
  proof (cases "isa_stdev cfg < 0")
    case True
    with sp assms show ?thesis
      by (simp add: week_update_def update_savings_ok update_current_ok update_isa_neg)
  next
    case False
    with sp assms have "lisa_stdev cfg < 0" by (auto simp: stdevs_nonneg_def)
    with sp False assms show ?thesis
      by (simp add: week_update_def update_savings_ok update_current_ok update_isa_ok update_lisa_neg)
  qed
qed

section \<open>What a run returns\<close>

text \<open>
  The outcome of \<open>run_single_simulation\<close> in every case: \<open>IndexError\<close> for \<open>n_weeks \<le> 0\<close>;
  \<open>ValueError\<close>, raised by the first draw with a negative scale, for \<open>n_weeks \<ge> 2\<close> and a
  negative standard deviation; and otherwise the four lists \<open>trajectory cfg g\<close>, with
  three variates consumed per week of the loop. After the weeks \<open>1, \<dots>, k - 1\<close> the lists
  are \<open>after_weeks cfg g n k\<close>.
\<close>

lemma length_filled: "k \<le> n \<Longrightarrow> length (filled f n k) = n"
  by (simp add: filled_def)

lemma filled_nth: "i < k \<Longrightarrow> filled f n k ! i = f i"
  by (simp add: filled_def nth_append)

lemma filled_update: "k < n \<Longrightarrow> (filled f n k)[k := f k] = filled f n (Suc k)"
  by (rule nth_equalityI) (auto simp: filled_def nth_append nth_list_update less_Suc_eq)

lemma filled_full: "filled f n n = map f [0..<n]"
  by (simp add: filled_def)

lemma filled_first: "0 < n \<Longrightarrow> (replicate n 0)[0 := f 0] = filled f n 1"
  by (cases n) (simp_all add: filled_def)

lemma initialise_ok:
  assumes "1 \<le> n_weeks cfg"
  shows "initialise cfg = Inr (after_weeks cfg g (nat (n_weeks cfg)) 1)"
proof -
  have pos: "0 < nat (n_weeks cfg)" using assms by simp
  then have "\<And>f. (replicate (nat (n_weeks cfg)) 0)[0 := f 0] = filled f (nat (n_weeks cfg)) 1"
    by (rule filled_first)
  from this [of "savings_at cfg g"] this [of "\<lambda>_. current_account_balance_now cfg"]
    this [of "lisa_at cfg g"] this [of "isa_at cfg g"] pos
  show ?thesis
    by (simp add: initialise_def Let_def setitem_in_range after_weeks_def)
qed

lemma initialise_empty:
  assumes "n_weeks cfg \<le> 0"
  shows "initialise cfg = Inl IndexError"
  using assms by (simp add: initialise_def setitem_def)

lemma week_loop_append:
  "week_loop cfg (xs @ ys) s = bind_r (week_loop cfg xs s) (week_loop cfg ys)"
  by (induction xs arbitrary: s) (auto simp: bind_r_def split: sum.splits)

lemma week_update_after_weeks:
  assumes "stdevs_nonneg cfg" "Suc j < n"
  shows "week_update cfg (Suc j) (after_weeks cfg g n (Suc j), advance (3 * j) g) =
           Inr (after_weeks cfg g n (Suc (Suc j)), advance (3 * Suc j) g)"
proof -
  have len: "\<And>f. length (filled f n (Suc j)) = n" using assms by (simp add: length_filled)
  have "week_update cfg (Suc j) (after_weeks cfg g n (Suc j), advance (3 * j) g) =
          Inr (\<lparr>savings_account = (filled (savings_at cfg g) n (Suc j))[Suc j := savings_at cfg g (Suc j)],
               current_account = (filled (\<lambda>_. current_account_balance_now cfg) n (Suc j))[Suc j := current_account_balance_now cfg],
               lisa = (filled (lisa_at cfg g) n (Suc j))[Suc j := lisa_at cfg g (Suc j)],
               isa = (filled (isa_at cfg g) n (Suc j))[Suc j := isa_at cfg g (Suc j)]\<rparr>,
              advance 3 (advance (3 * j) g))"
    using assms
    by (subst week_update_ok) (simp_all add: after_weeks_def len filled_nth advance_apply)
  moreover have "\<And>f. (filled f n (Suc j))[Suc j := f (Suc j)] = filled f n (Suc (Suc j))"
    using assms(2) by (rule filled_update)
  note this [of "savings_at cfg g"] this [of "\<lambda>_. current_account_balance_now cfg"]
    this [of "lisa_at cfg g"] this [of "isa_at cfg g"]
  ultimately show ?thesis
    by (simp add: after_weeks_def advance_advance add.commute)
qed

lemma week_loop_after_weeks:
  assumes "stdevs_nonneg cfg" "Suc j \<le> n"
  shows "week_loop cfg [1..<Suc j] (after_weeks cfg g n 1, g) =
           Inr (after_weeks cfg g n (Suc j), advance (3 * j) g)"
  using assms(2)
proof (induction j)
  case 0
  show ?case by (simp add: advance_0)
next
  case (Suc j)
  then have "week_loop cfg [1..<Suc j] (after_weeks cfg g n 1, g) =
               Inr (after_weeks cfg g n (Suc j), advance (3 * j) g)"
    by simp
  moreover have "[1..<Suc (Suc j)] = [1..<Suc j] @ [Suc j]" by simp
  ultimately show ?case
    using Suc.prems assms(1)
    by (simp only: week_loop_append bind_r_Inr week_loop.simps week_update_after_weeks)
qed

lemma after_weeks_full: "after_weeks cfg g (nat (n_weeks cfg)) (nat (n_weeks cfg)) = trajectory cfg g"
  by (simp add: after_weeks_def trajectory_def filled_full Let_def)

lemma run_ok:
  assumes "1 \<le> n_weeks cfg" "stdevs_nonneg cfg \<or> n_weeks cfg = 1"
  shows "run_single_simulation cfg g =
           Inr (trajectory cfg g, advance (3 * (nat (n_weeks cfg) - 1)) g)"
proof (cases "n_weeks cfg = 1")
  case True
  then have "nat (n_weeks cfg) = 1" by simp
  then show ?thesis
    using after_weeks_full [of cfg g]
    by (simp add: run_single_simulation_def initialise_ok [of cfg g] True advance_0)
next
  case False
  with assms have sd: "stdevs_nonneg cfg" by simp
  obtain j where j: "nat (n_weeks cfg) = Suc j"
    using assms(1) by (cases "nat (n_weeks cfg)") auto
  show ?thesis
    using week_loop_after_weeks [OF sd, of j "Suc j" g] after_weeks_full [of cfg g] assms(1)
    by (simp add: run_single_simulation_def initialise_ok [of cfg g] j)
qed

lemma run_neg:
  assumes "2 \<le> n_weeks cfg" "\<not> stdevs_nonneg cfg"
  shows "run_single_simulation cfg g = Inl ValueError"
proof -
  obtain j where j: "nat (n_weeks cfg) = Suc (Suc j)"
    using assms(1) by (cases "nat (n_weeks cfg)"; cases "nat (n_weeks cfg) - 1") auto
  have up: "[1..<Suc (Suc j)] = 1 # [2..<Suc (Suc j)]"
    by (simp add: upt_conv_Cons numeral_2_eq_2)
  have "week_update cfg 1 (after_weeks cfg g (Suc (Suc j)) 1, g) = Inl ValueError"
    using assms(2) by (intro week_update_neg) (simp_all add: after_weeks_def length_filled)
  then have "week_loop cfg [1..<Suc (Suc j)] (after_weeks cfg g (Suc (Suc j)) 1, g) = Inl ValueError"
    by (simp only: up week_loop.simps bind_r_Inl)
  then show ?thesis
    using assms(1) by (simp add: run_single_simulation_def initialise_ok [of cfg g] j)
qed

lemma run_empty:
  assumes "n_weeks cfg \<le> 0"
  shows "run_single_simulation cfg g = Inl IndexError"
  using assms by (simp add: run_single_simulation_def initialise_empty)

section \<open>Entry 0 and the draws of one week\<close>

text \<open>
  Two facts about the update of one week from arbitrary lists (also lists on which it
  raises): it does not touch entry \<open>0\<close>, and it reads the generator three times at most.
\<close>

lemma update_savings_first:
  assumes "update_savings cfg week (sa, g) = Inr (sa', g')" "1 \<le> week"
  shows "sa' ! 0 = sa ! 0 \<and> length sa' = length sa"
  using assms
  by (auto simp: update_savings_def bind_r_def getitem_def setitem_def normal_def
      split: sum.splits if_splits prod.splits)

lemma update_current_first:
  assumes "update_current week ca = Inr ca'" "1 \<le> week"
  shows "ca' ! 0 = ca ! 0 \<and> length ca' = length ca"
  using assms
  by (auto simp: update_current_def bind_r_def getitem_def setitem_def
      split: sum.splits if_splits)

lemma update_isa_first:
  assumes "update_isa cfg week (xs, g) = Inr (xs', g')" "1 \<le> week"
  shows "xs' ! 0 = xs ! 0 \<and> length xs' = length xs"
  using assms
  by (auto simp: update_isa_def bind_r_def getitem_def setitem_def normal_def
      split: sum.splits if_splits prod.splits)

lemma update_lisa_first:
  assumes "update_lisa cfg week (xs, g) = Inr (xs', g')" "1 \<le> week"
  shows "xs' ! 0 = xs ! 0 \<and> length xs' = length xs"
  using assms
  by (auto simp: update_lisa_def bind_r_def getitem_def setitem_def normal_def
      split: sum.splits if_splits prod.splits)

lemma week_update_first:
  assumes "week_update cfg week (a, g) = Inr (a', g')" "1 \<le> week"
  shows "first_entries a' = first_entries a"
proof -
  from assms(1) obtain sa g1 ca ia g2 la where
    s: "update_savings cfg week (savings_account a, g) = Inr (sa, g1)" and
    c: "update_current week (current_account a) = Inr ca" and
    i: "update_isa cfg week (isa a, g1) = Inr (ia, g2)" and
    l: "update_lisa cfg week (lisa a, g2) = Inr (la, g')" and
    a': "a' = \<lparr>savings_account = sa, current_account = ca, lisa = la, isa = ia\<rparr>"
    by (auto simp: week_update_def bind_r_def split: sum.splits prod.splits)
  show ?thesis
    using update_savings_first [OF s assms(2)] update_current_first [OF c assms(2)]
      update_isa_first [OF i assms(2)] update_lisa_first [OF l assms(2)]
    by (simp add: a' first_entries_def)
qed

lemma week_loop_first:
  assumes "week_loop cfg weeks (a, g) = Inr (a', g')" "\<forall>week \<in> set weeks. 1 \<le> week"
  shows "first_entries a' = first_entries a"
  using assms
proof (induction weeks arbitrary: a g)
  case Nil
  then show ?case by simp
next
  case (Cons week weeks)
  from Cons.prems(1) obtain a1 g1 where
    step: "week_update cfg week (a, g) = Inr (a1, g1)" and
    rest: "week_loop cfg weeks (a1, g1) = Inr (a', g')"
    by (auto simp: bind_r_def split: sum.splits)
  from Cons.prems(2) have "1 \<le> week" "\<forall>week \<in> set weeks. 1 \<le> week" by simp_all
  with Cons.IH [OF rest] week_update_first [OF step] show ?case by simp
qed

lemma week_update_draws:
  assumes "\<forall>k<3. g1 k = g2 k"
  shows "map_sum id fst (week_update cfg week (a, g1)) = map_sum id fst (week_update cfg week (a, g2))"
proof -
  from assms have "g1 0 = g2 0" "g1 (Suc 0) = g2 (Suc 0)" "g1 (Suc (Suc 0)) = g2 (Suc (Suc 0))"
    by simp_all
  then show ?thesis
  by (auto simp: week_update_def update_savings_def update_current_def update_isa_def update_lisa_def
      bind_r_def getitem_def setitem_def normal_def advance_def
      split: sum.splits if_splits prod.splits)
qed

section \<open>Properties of \<open>run_single_simulation\<close>\<close>

lemma run_returned:
  assumes "run_single_simulation cfg g = Inr (tr, g')"
  shows "1 \<le> n_weeks cfg" and "stdevs_nonneg cfg \<or> n_weeks cfg = 1"
    and "tr = trajectory cfg g" and "g' = advance (3 * (nat (n_weeks cfg) - 1)) g"
proof -
  show n: "1 \<le> n_weeks cfg"
  proof (rule ccontr)
    assume "\<not> 1 \<le> n_weeks cfg"
    then have "n_weeks cfg \<le> 0" by simp
    from run_empty [OF this, of g] assms show False by simp
  qed
  show sd: "stdevs_nonneg cfg \<or> n_weeks cfg = 1"
  proof (rule ccontr)
    assume "\<not> (stdevs_nonneg cfg \<or> n_weeks cfg = 1)"
    with n have "2 \<le> n_weeks cfg" "\<not> stdevs_nonneg cfg" by simp_all
    from run_neg [OF this, of g] assms show False by simp
  qed
  from run_ok [OF n sd, of g] assms
  show "tr = trajectory cfg g" and "g' = advance (3 * (nat (n_weeks cfg) - 1)) g"
    by simp_all
qed

lemma trajectory_nth:
  assumes "int w < n_weeks cfg"
  shows "savings_account (trajectory cfg g) ! w = savings_at cfg g w"
    and "current_account (trajectory cfg g) ! w = current_account_balance_now cfg"
    and "isa (trajectory cfg g) ! w = isa_at cfg g w"
    and "lisa (trajectory cfg g) ! w = lisa_at cfg g w"
proof -
  from assms have "w < nat (n_weeks cfg)" by simp
  then show "savings_account (trajectory cfg g) ! w = savings_at cfg g w"
    and "current_account (trajectory cfg g) ! w = current_account_balance_now cfg"
    and "isa (trajectory cfg g) ! w = isa_at cfg g w"
    and "lisa (trajectory cfg g) ! w = lisa_at cfg g w"
    by (simp_all add: trajectory_def Let_def)
qed

text \<open>
  Claim C1. In a run that returns, for every week \<open>w\<close> from \<open>1\<close> to \<open>n_weeks - 1\<close> the savings
  balance of week \<open>w\<close> is obtained from that of week \<open>w - 1\<close> by adding \<open>annual_inflow / 52\<close>
  and taking away the spending drawn for that week from the normal distribution with
  \<open>weekly_spendings_mean\<close> and \<open>weekly_spendings_stdev\<close> (the variate number \<open>3 * (w - 1)\<close> of
  the run); the interest \<open>balance * (savings_account_interest / 100) / 52\<close> is then computed
  from, and added to, this new balance, not the balance of the week before.
\<close>

theorem savings_account_week:
  assumes "1 \<le> n_weeks cfg"
    and "run_single_simulation cfg g = Inr (tr, g')"
    and "1 \<le> w" and "int w \<le> n_weeks cfg - 1"
  shows "savings_account tr ! w =
           (let balance = savings_account tr ! (w - 1) + annual_inflow cfg / 52
                          - normal_value (weekly_spendings_mean cfg) (weekly_spendings_stdev cfg)
                              (g (3 * (w - 1)))
            in balance + balance * (savings_account_interest cfg / 100) / 52)"
proof -
  obtain j where w: "w = Suc j" using assms(3) by (cases w) auto
  have "int j < n_weeks cfg" "int (Suc j) < n_weeks cfg" using assms(4) w by simp_all
  then show ?thesis
    using run_returned(3) [OF assms(2)]
    by (simp add: w trajectory_nth savings_next_def)
qed

text \<open>
  Claim C2. In a run that returns, for every week \<open>w\<close> from \<open>1\<close> to \<open>n_weeks - 1\<close> the ISA
  balance of week \<open>w\<close> is that of week \<open>w - 1\<close> plus \<open>isa_weekly_payment\<close>, increased by this
  new balance times a rate drawn from the normal distribution with mean
  \<open>isa_mean / 100 / 52\<close> and standard deviation \<open>isa_stdev / 100 / sqrt 52\<close> (the variate
  number \<open>3 * (w - 1) + 1\<close> of the run).
\<close>

theorem isa_week:
  assumes "1 \<le> n_weeks cfg"
    and "run_single_simulation cfg g = Inr (tr, g')"
    and "1 \<le> w" and "int w \<le> n_weeks cfg - 1"
  shows "isa tr ! w =
           (let balance = isa tr ! (w - 1) + isa_weekly_payment cfg
            in balance + balance *
                 normal_value (isa_mean cfg / 100 / 52) (isa_stdev cfg / 100 / sqrt 52)
                   (g (3 * (w - 1) + 1)))"
proof -
  obtain j where w: "w = Suc j" using assms(3) by (cases w) auto
  have "int j < n_weeks cfg" "int (Suc j) < n_weeks cfg" using assms(4) w by simp_all
  then show ?thesis
    using run_returned(3) [OF assms(2)]
    by (simp add: w trajectory_nth isa_next_def)
qed

text \<open>
  Claim C3. In a run that returns, for every week \<open>w\<close> from \<open>1\<close> to \<open>n_weeks - 1\<close> the LISA
  balance of week \<open>w\<close> is that of week \<open>w - 1\<close> plus \<open>lisa_weekly_payment * 1.25\<close>, increased
  by this new balance times a rate drawn from the normal distribution with mean
  \<open>lisa_mean / 100 / 52\<close> and standard deviation \<open>lisa_stdev / 100 / sqrt 52\<close> (the variate
  number \<open>3 * (w - 1) + 2\<close> of the run).
\<close>

theorem lisa_week:
  assumes "1 \<le> n_weeks cfg"
    and "run_single_simulation cfg g = Inr (tr, g')"
    and "1 \<le> w" and "int w \<le> n_weeks cfg - 1"
  shows "lisa tr ! w =
           (let balance = lisa tr ! (w - 1) + lisa_weekly_payment cfg * 1.25
            in balance + balance *
                 normal_value (lisa_mean cfg / 100 / 52) (lisa_stdev cfg / 100 / sqrt 52)
                   (g (3 * (w - 1) + 2)))"
proof -
  obtain j where w: "w = Suc j" using assms(3) by (cases w) auto
  have "int j < n_weeks cfg" "int (Suc j) < n_weeks cfg" using assms(4) w by simp_all
  then show ?thesis
    using run_returned(3) [OF assms(2)]
    by (simp add: w trajectory_nth lisa_next_def)
qed

text \<open>
  Claim C4. In a run that returns, whatever the draws, the current-account list holds
  \<open>current_account_balance_now\<close> at every week from \<open>0\<close> to \<open>n_weeks - 1\<close>.
\<close>

theorem current_account_constant:
  assumes "1 \<le> n_weeks cfg"
    and "run_single_simulation cfg g = Inr (tr, g')"
    and "int week \<le> n_weeks cfg - 1"
  shows "current_account tr ! week = current_account_balance_now cfg"
proof -
  have "int week < n_weeks cfg" using assms(3) by simp
  then show ?thesis
    using run_returned(3) [OF assms(2)] by (simp add: trajectory_nth)
qed

text \<open>
  Claim C5. In a run that returns, whatever the draws, entry \<open>0\<close> of each of the four lists
  is the configured initial balance of that account; and the loop over the weeks, started
  from any four lists, leaves entry \<open>0\<close> of each of them as it was.
\<close>

theorem week_zero_initial:
  assumes "1 \<le> n_weeks cfg"
    and "run_single_simulation cfg g = Inr (tr, g')"
  shows "savings_account tr ! 0 = savings_account_balance_now cfg \<and>
         current_account tr ! 0 = current_account_balance_now cfg \<and>
         isa tr ! 0 = isa_balance_now cfg \<and>
         lisa tr ! 0 = lisa_balance_now cfg \<and>
         (\<forall>a0 g0 a1 g1. week_loop cfg [1..<nat (n_weeks cfg)] (a0, g0) = Inr (a1, g1) \<longrightarrow>
            savings_account a1 ! 0 = savings_account a0 ! 0 \<and>
            current_account a1 ! 0 = current_account a0 ! 0 \<and>
            isa a1 ! 0 = isa a0 ! 0 \<and>
            lisa a1 ! 0 = lisa a0 ! 0)"
proof -
  have "int 0 < n_weeks cfg" using assms(1) by simp
  from trajectory_nth [OF this, of g]
  have "savings_account tr ! 0 = savings_account_balance_now cfg \<and>
         current_account tr ! 0 = current_account_balance_now cfg \<and>
         isa tr ! 0 = isa_balance_now cfg \<and>
         lisa tr ! 0 = lisa_balance_now cfg"
    using run_returned(3) [OF assms(2)] by simp
  moreover have "savings_account a1 ! 0 = savings_account a0 ! 0 \<and>
            current_account a1 ! 0 = current_account a0 ! 0 \<and>
            isa a1 ! 0 = isa a0 ! 0 \<and>
            lisa a1 ! 0 = lisa a0 ! 0"
    if "week_loop cfg [1..<nat (n_weeks cfg)] (a0, g0) = Inr (a1, g1)" for a0 g0 a1 g1
    using week_loop_first [OF that] by (simp add: first_entries_def)
  ultimately show ?thesis by blast
qed

text \<open>
  Claim C10. With \<open>n_weeks \<le> 0\<close> the four lists are empty, the first store at index \<open>0\<close>
  raises \<open>IndexError\<close>, and so does \<open>run_single_simulation\<close>: no lists are returned.
\<close>

theorem nonpositive_weeks_fail:
  assumes "n_weeks cfg \<le> 0"
  shows "initialise cfg = Inl IndexError \<and> run_single_simulation cfg g = Inl IndexError"
  using assms by (simp add: initialise_empty run_empty)

lemma at_agree:
  assumes "\<forall>k < 3 * w. g1 k = g2 k"
  shows "savings_at cfg g1 w = savings_at cfg g2 w"
    and "isa_at cfg g1 w = isa_at cfg g2 w"
    and "lisa_at cfg g1 w = lisa_at cfg g2 w"
  using assms by (induction w) simp_all

lemma trajectory_agree:
  assumes "\<forall>k < 3 * (nat (n_weeks cfg) - 1). g1 k = g2 k"
  shows "trajectory cfg g1 = trajectory cfg g2"
proof -
  have "\<forall>k < 3 * w. g1 k = g2 k" if "w < nat (n_weeks cfg)" for w
    using assms that by auto
  then show ?thesis
    by (simp add: trajectory_def Let_def at_agree)
qed

text \<open>
  Claim C9. Two runs with the same settings whose generators deliver the same
  \<open>3 * (n_weeks - 1)\<close> variates (the ones a run consumes) end in the same way: with the same
  four lists, or with the same exception. The update of one week, from any four lists,
  likewise depends on the generator through its next three variates only.
\<close>

theorem same_draws_same_trajectories:
  assumes "\<forall>k < 3 * (nat (n_weeks cfg) - 1). g1 k = g2 k"
  shows "map_sum id fst (run_single_simulation cfg g1) =
         map_sum id fst (run_single_simulation cfg g2) \<and>
         (\<forall>week a h1 h2. 1 \<le> week \<longrightarrow> (\<forall>k<3. h1 k = h2 k) \<longrightarrow>
            map_sum id fst (week_update cfg week (a, h1)) =
            map_sum id fst (week_update cfg week (a, h2)))"
proof -
  have "map_sum id fst (run_single_simulation cfg g1) =
         map_sum id fst (run_single_simulation cfg g2)"
  proof (cases "1 \<le> n_weeks cfg")
    case False
    then show ?thesis by (simp add: run_empty)
  next
    case n: True
    show ?thesis
    proof (cases "stdevs_nonneg cfg \<or> n_weeks cfg = 1")
      case True
      then show ?thesis by (simp add: run_ok [OF n] trajectory_agree [OF assms])
    next
      case False
      with n have "2 \<le> n_weeks cfg" "\<not> stdevs_nonneg cfg" by simp_all
      then show ?thesis by (simp add: run_neg)
    qed
  qed
  then show ?thesis using week_update_draws by blast
qed

section \<open>The run of three weeks\<close>

text \<open>The example settings, evaluated statement by statement.\<close>

lemma example_draws_values:
  "example_draws 0 = 1" "example_draws 3 = 1"
  "example_draws 1 = sqrt 52" "example_draws 2 = sqrt 52"
  "example_draws 4 = sqrt 52" "example_draws 5 = sqrt 52"
  "example_draws (Suc 0) = sqrt 52" "example_draws (Suc (Suc 0)) = sqrt 52"
  by (simp_all add: example_draws_def)

lemma example_weeks: "[1..<nat (n_weeks example_config)] = [1, 2]"
  by (simp add: example_config_def upt_conv_Cons numeral_3_eq_3 numeral_2_eq_2)

lemma example_initialise:
  "initialise example_config =
     Inr \<lparr>savings_account = [1000, 0, 0], current_account = [100, 0, 0],
          lisa = [1000, 0, 0], isa = [1000, 0, 0]\<rparr>"
  by (simp add: initialise_def example_config_def setitem_def numeral_3_eq_3)

lemma example_week_1:
  "week_update example_config 1
     (\<lparr>savings_account = [1000, 0, 0], current_account = [100, 0, 0],
       lisa = [1000, 0, 0], isa = [1000, 0, 0]\<rparr>, example_draws) =
   Inr (\<lparr>savings_account = [1000, 1050.4, 0], current_account = [100, 100, 0],
         lisa = [1000, 1050.4, 0], isa = [1000, 1030.2, 0]\<rparr>, advance 3 example_draws)"
  by (simp add: week_update_def update_savings_def update_current_def update_isa_def
      update_lisa_def getitem_def setitem_def normal_def normal_value_def example_config_def
      advance_advance advance_apply example_draws_values numeral_3_eq_3)

lemma example_week_2:
  "week_update example_config 2
     (\<lparr>savings_account = [1000, 1050.4, 0], current_account = [100, 100, 0],
         lisa = [1000, 1050.4, 0], isa = [1000, 1030.2, 0]\<rparr>, advance 3 example_draws) =
   Inr (example_accounts, advance 6 example_draws)"
  by (simp add: week_update_def update_savings_def update_current_def update_isa_def
      update_lisa_def getitem_def setitem_def normal_def normal_value_def example_config_def
      advance_advance advance_apply example_draws_values example_accounts_def)

lemma example_run:
  "run_single_simulation example_config example_draws = Inr (example_accounts, advance 6 example_draws)"
  unfolding run_single_simulation_def example_weeks example_initialise
  by (simp only: bind_r_Inr week_loop.simps example_week_1 example_week_2)

theorem savings_account_week_witness:
  "1 \<le> n_weeks example_config \<and>
   run_single_simulation example_config example_draws = Inr (example_accounts, advance 6 example_draws) \<and>
   (1::nat) \<le> 2 \<and> int 2 \<le> n_weeks example_config - 1 \<and>
   savings_account example_accounts ! 2 = 1101.304"
proof -
  have n: "1 \<le> n_weeks example_config" and w: "(1::nat) \<le> 2" "int 2 \<le> n_weeks example_config - 1"
    by (simp_all add: example_config_def)
  from savings_account_week [OF n example_run w] n w example_run
  show ?thesis
    by (simp add: example_accounts_def example_config_def normal_value_def example_draws_values)
qed

theorem isa_week_witness:
  "1 \<le> n_weeks example_config \<and>
   run_single_simulation example_config example_draws = Inr (example_accounts, advance 6 example_draws) \<and>
   (1::nat) \<le> 2 \<and> int 2 \<le> n_weeks example_config - 1 \<and>
   isa example_accounts ! 2 = 1061.004"
proof -
  have n: "1 \<le> n_weeks example_config" and w: "(1::nat) \<le> 2" "int 2 \<le> n_weeks example_config - 1"
    by (simp_all add: example_config_def)
  from isa_week [OF n example_run w] n w example_run
  show ?thesis
    by (simp add: example_accounts_def)
qed

theorem lisa_week_witness:
  "1 \<le> n_weeks example_config \<and>
   run_single_simulation example_config example_draws = Inr (example_accounts, advance 6 example_draws) \<and>
   (1::nat) \<le> 1 \<and> int 1 \<le> n_weeks example_config - 1 \<and>
   lisa example_accounts ! 1 = 1050.4"
proof -
  have n: "1 \<le> n_weeks example_config" and w: "(1::nat) \<le> 1" "int 1 \<le> n_weeks example_config - 1"
    by (simp_all add: example_config_def)
  from lisa_week [OF n example_run w] n w example_run
  show ?thesis
    by (simp add: example_accounts_def)
qed

theorem current_account_constant_witness:
  "1 \<le> n_weeks example_config \<and>
   run_single_simulation example_config example_draws = Inr (example_accounts, advance 6 example_draws) \<and>
   int 2 \<le> n_weeks example_config - 1 \<and>
   current_account example_accounts ! 2 = current_account_balance_now example_config"
proof -
  have n: "1 \<le> n_weeks example_config" and w: "int 2 \<le> n_weeks example_config - 1"
    by (simp_all add: example_config_def)
  from current_account_constant [OF n example_run w] n w example_run
  show ?thesis by simp
qed

theorem week_zero_initial_witness:
  "1 \<le> n_weeks example_config \<and>
   run_single_simulation example_config example_draws = Inr (example_accounts, advance 6 example_draws) \<and>
   savings_account example_accounts ! 0 = savings_account_balance_now example_config \<and>
   current_account example_accounts ! 0 = current_account_balance_now example_config \<and>
   isa example_accounts ! 0 = isa_balance_now example_config \<and>
   lisa example_accounts ! 0 = lisa_balance_now example_config"
proof -
  have n: "1 \<le> n_weeks example_config"
    by (simp add: example_config_def)
  from week_zero_initial [OF n example_run] n example_run
  show ?thesis by simp
qed

theorem nonpositive_weeks_fail_witness:
  "n_weeks (example_config\<lparr>n_weeks := - 3\<rparr>) \<le> 0 \<and>
   run_single_simulation (example_config\<lparr>n_weeks := - 3\<rparr>) example_draws = Inl IndexError"
proof -
  have n: "n_weeks (example_config\<lparr>n_weeks := - 3\<rparr>) \<le> 0" by simp
  from nonpositive_weeks_fail [OF n, of example_draws] n
  show ?thesis by simp
qed

theorem same_draws_same_trajectories_witness:
  "map example_draws [0..<6] = map late_draws [0..<6] \<and>
   example_draws 6 \<noteq> late_draws 6 \<and>
   map_sum id fst (run_single_simulation example_config example_draws) =
   map_sum id fst (run_single_simulation example_config late_draws)"
proof -
  have h: "\<forall>k < 3 * (nat (n_weeks example_config) - 1). example_draws k = late_draws k"
    by (simp add: example_config_def late_draws_def)
  have "map example_draws [0..<6] = map late_draws [0..<6]"
    by (simp add: late_draws_def)
  moreover have "example_draws 6 \<noteq> late_draws 6"
    by (simp add: example_draws_def late_draws_def)
  ultimately show ?thesis
    using same_draws_same_trajectories [OF h] by simp
qed

section \<open>Properties of \<open>simulate\<close>\<close>

text \<open>
  What the fields of the summary are when \<open>simulate\<close> returns: the comprehensions
  succeed only on lists of the right lengths, and deliver the last entries of the runs.
\<close>

lemma comprehension_Inr:
  assumes "comprehension f xs = Inr ys"
  shows "length ys = length xs \<and> (\<forall>i<length xs. f (xs ! i) = Inr (ys ! i))"
  using assms
proof (induction xs arbitrary: ys)
  case Nil
  then show ?case by simp
next
  case (Cons x xs)
  from Cons.prems obtain y zs where
    y: "f x = Inr y" and zs: "comprehension f xs = Inr zs" and ys: "ys = y # zs"
    by (auto simp: bind_r_def split: sum.splits)
  from Cons.IH [OF zs] y show ?case
    by (auto simp: ys nth_Cons split: nat.splits)
qed

lemma comprehension_map:
  assumes "\<forall>x \<in> set xs. f x = Inr (h x)"
  shows "comprehension f xs = Inr (map h xs)"
  using assms by (induction xs) simp_all

lemma scenario_at:
  "savings_at scenario_config g w = 1000"
  "isa_at scenario_config g w = 1000"
  "lisa_at scenario_config g w = 1000"
  by (induction w)
    (simp_all add: scenario_config_def savings_next_def isa_next_def lisa_next_def normal_value_def)

lemma scenario_trajectory: "trajectory scenario_config g = scenario_accounts"
proof -
  have "nat (n_weeks scenario_config) = 5" by (simp add: scenario_config_def)
  moreover have "current_account_balance_now scenario_config = 100"
    by (simp add: scenario_config_def)
  moreover have "savings_at scenario_config g = (\<lambda>_. 1000)"
    "isa_at scenario_config g = (\<lambda>_. 1000)" "lisa_at scenario_config g = (\<lambda>_. 1000)"
    by (simp_all add: fun_eq_iff scenario_at)
  ultimately show ?thesis
    by (simp add: trajectory_def scenario_accounts_def map_replicate_const)
qed

lemma scenario_run:
  "run_single_simulation scenario_config g = Inr (scenario_accounts, advance 12 g)"
proof -
  have "1 \<le> n_weeks scenario_config" "stdevs_nonneg scenario_config"
    by (simp_all add: scenario_config_def stdevs_nonneg_def)
  then have "run_single_simulation scenario_config g =
      Inr (trajectory scenario_config g, advance (3 * (nat (n_weeks scenario_config) - 1)) g)"
    by (intro run_ok) simp_all
  then show ?thesis by (simp add: scenario_trajectory) (simp add: scenario_config_def)
qed

lemma scenario_run_all:
  "run_all scenario_config k (r, g) =
     Inr (repeated_results r k scenario_accounts, advance (12 * k) g)"
proof (induction k arbitrary: r g)
  case 0
  show ?case by (simp add: repeated_results_def advance_0)
next
  case (Suc k)
  show ?case
    by (simp add: scenario_run Suc.IH advance_advance)
      (simp add: repeated_results_def append_results_def replicate_app_Cons_same)
qed

lemma comprehension_last_replicate:
  "xs \<noteq> [] \<Longrightarrow> comprehension last_item (replicate k xs) = Inr (replicate k (last xs))"
  by (induction k) (simp_all add: last_item_def)

lemma sum_list_same: "sum_list (replicate k (c::real)) = real k * c"
  by (induction k) (simp_all add: algebra_simps)

lemma scenario_simulate:
  assumes "1 \<le> n"
  shows "map_sum id mean_total (simulate scenario_config n g) = Inr 3100"
proof -
  have both: "comprehension (\<lambda>i.
        bind_r (getitem (replicate n (1000::real)) i) (\<lambda>s.
        bind_r (getitem (replicate n (100::real)) i) (\<lambda>c. Inr (s + c)))) [0..<n]
      = Inr (map (\<lambda>i. 1100) [0..<n])"
    by (rule comprehension_map) (simp add: getitem_def)
  have tot: "comprehension (\<lambda>i.
        bind_r (getitem (replicate n (1000::real)) i) (\<lambda>s.
        bind_r (getitem (replicate n (100::real)) i) (\<lambda>c.
        bind_r (getitem (replicate n (1000::real)) i) (\<lambda>x.
        bind_r (getitem (replicate n (1000::real)) i) (\<lambda>y. Inr (s + c + x + y)))))) [0..<n]
      = Inr (map (\<lambda>i. 3100) [0..<n])"
    by (rule comprehension_map) (simp add: getitem_def)
  have mean: "np_mean (map (\<lambda>i. 3100) [0..<n]) = 3100"
    using assms by (simp add: np_mean_def map_replicate_const sum_list_same)
  show ?thesis
    using assms
    by (simp add: simulate_def scenario_run_all repeated_results_def scenario_accounts_def
        comprehension_last_replicate both tot p_lower_def mean Let_def)
qed

lemma bind_r_InrE:
  assumes "bind_r m f = Inr y"
  obtains x where "m = Inr x" and "f x = Inr y"
  using assms by (cases m) (simp_all add: bind_r_def)

lemma getitem_Inr: "getitem xs i = Inr v \<Longrightarrow> i < length xs \<and> v = xs ! i"
  by (auto simp: getitem_def split: if_splits)

lemma comprehension_last_nth:
  assumes "comprehension last_item xss = Inr vs" "i < length vs"
  shows "i < length xss \<and> vs ! i = last (xss ! i)"
proof -
  from comprehension_Inr [OF assms(1)] assms(2)
  have "i < length xss" "last_item (xss ! i) = Inr (vs ! i)" by simp_all
  then show ?thesis by (auto simp: last_item_def split: if_splits)
qed

lemma p_lower_value:
  assumes "p_lower finals reference n = Inr p" "length finals = n"
  shows "p = real (card {i. i < n \<and> finals ! i < reference}) / real n * 100"
    and "0 \<le> p" and "p \<le> 100"
proof -
  from assms(1) have n: "n \<noteq> 0"
    and p: "p = real (length (filter (\<lambda>v. v < reference) finals)) / real n * 100"
    by (auto simp: p_lower_def split: if_splits)
  show "p = real (card {i. i < n \<and> finals ! i < reference}) / real n * 100"
    by (simp add: p length_filter_conv_card assms(2))
  have "length (filter (\<lambda>v. v < reference) finals) \<le> n"
    using assms(2) length_filter_le [of "\<lambda>v. v < reference" finals] by simp
  then show "p \<le> 100" using n by (simp add: p divide_le_eq)
  show "0 \<le> p" by (simp add: p)
qed

lemma simulate_returned:
  assumes "simulate cfg n g = Inr e"
  shows "length (current_and_savings_final e) = n"
    and "length (total_final e) = n"
    and "\<forall>i<n. current_and_savings_final e ! i =
            last (savings_account_results (all_results e) ! i)
            + last (current_account_results (all_results e) ! i)"
    and "\<forall>i<n. total_final e ! i =
            last (savings_account_results (all_results e) ! i)
            + last (current_account_results (all_results e) ! i)
            + last (isa_results (all_results e) ! i)
            + last (lisa_results (all_results e) ! i)"
    and "p_lower (current_and_savings_final e) 0 n = Inr (p_lower_current_and_savings e)"
    and "p_lower (total_final e)
           (current_account_balance_now cfg + savings_account_balance_now cfg
            + isa_balance_now cfg + lisa_balance_now cfg) n = Inr (p_lower_total e)"
proof -
  from assms obtain r sf cf bf xf yf tf pb pt where
    sf: "comprehension last_item (savings_account_results r) = Inr sf" and
    cf: "comprehension last_item (current_account_results r) = Inr cf" and
    bf: "comprehension (\<lambda>i.
        bind_r (getitem sf i) (\<lambda>s.
        bind_r (getitem cf i) (\<lambda>c. Inr (s + c)))) [0..<n] = Inr bf" and
    xf: "comprehension last_item (isa_results r) = Inr xf" and
    yf: "comprehension last_item (lisa_results r) = Inr yf" and
    tf: "comprehension (\<lambda>i.
        bind_r (getitem sf i) (\<lambda>s.
        bind_r (getitem cf i) (\<lambda>c.
        bind_r (getitem xf i) (\<lambda>x.
        bind_r (getitem yf i) (\<lambda>y. Inr (s + c + x + y)))))) [0..<n] = Inr tf" and
    pb: "p_lower bf 0 n = Inr pb" and
    pt: "p_lower tf (current_account_balance_now cfg + savings_account_balance_now cfg
            + isa_balance_now cfg + lisa_balance_now cfg) n = Inr pt" and
    e: "all_results e = r" "current_and_savings_final e = bf" "total_final e = tf"
       "p_lower_current_and_savings e = pb" "p_lower_total e = pt"
    unfolding simulate_def Let_def
    by (elim bind_r_InrE, simp only: split_paired_all prod.case, elim bind_r_InrE) auto
  from comprehension_Inr [OF bf] have lb: "length bf = n" and
    b: "\<forall>i<n. bind_r (getitem sf i) (\<lambda>s. bind_r (getitem cf i) (\<lambda>c. Inr (s + c))) = Inr (bf ! i)"
    by simp_all
  from comprehension_Inr [OF tf] have lt: "length tf = n" and
    t: "\<forall>i<n. bind_r (getitem sf i) (\<lambda>s. bind_r (getitem cf i) (\<lambda>c.
          bind_r (getitem xf i) (\<lambda>x. bind_r (getitem yf i) (\<lambda>y. Inr (s + c + x + y)))))
        = Inr (tf ! i)"
    by simp_all
  show "length (current_and_savings_final e) = n" "length (total_final e) = n"
    by (simp_all add: e lb lt)
  show "p_lower (current_and_savings_final e) 0 n = Inr (p_lower_current_and_savings e)"
    and "p_lower (total_final e)
           (current_account_balance_now cfg + savings_account_balance_now cfg
            + isa_balance_now cfg + lisa_balance_now cfg) n = Inr (p_lower_total e)"
    by (simp_all add: e pb pt)
  show "\<forall>i<n. current_and_savings_final e ! i =
            last (savings_account_results (all_results e) ! i)
            + last (current_account_results (all_results e) ! i)"
  proof (intro allI impI)
    fix i assume "i < n"
    with b have "bind_r (getitem sf i) (\<lambda>s. bind_r (getitem cf i) (\<lambda>c. Inr (s + c)))
        = Inr (bf ! i)"
      by blast
    then have "i < length sf" "i < length cf" "bf ! i = sf ! i + cf ! i"
      by (auto elim!: bind_r_InrE dest!: getitem_Inr)
    with comprehension_last_nth [OF sf] comprehension_last_nth [OF cf]
    show "current_and_savings_final e ! i =
            last (savings_account_results (all_results e) ! i)
            + last (current_account_results (all_results e) ! i)"
      by (simp add: e)
  qed
  show "\<forall>i<n. total_final e ! i =
            last (savings_account_results (all_results e) ! i)
            + last (current_account_results (all_results e) ! i)
            + last (isa_results (all_results e) ! i)
            + last (lisa_results (all_results e) ! i)"
  proof (intro allI impI)
    fix i assume "i < n"
    with t have "bind_r (getitem sf i) (\<lambda>s. bind_r (getitem cf i) (\<lambda>c.
          bind_r (getitem xf i) (\<lambda>x. bind_r (getitem yf i) (\<lambda>y. Inr (s + c + x + y)))))
        = Inr (tf ! i)"
      by blast
    then have "i < length sf" "i < length cf" "i < length xf" "i < length yf"
      "tf ! i = sf ! i + cf ! i + xf ! i + yf ! i"
      by (auto elim!: bind_r_InrE dest!: getitem_Inr)
    with comprehension_last_nth [OF sf] comprehension_last_nth [OF cf]
      comprehension_last_nth [OF xf] comprehension_last_nth [OF yf]
    show "total_final e ! i =
            last (savings_account_results (all_results e) ! i)
            + last (current_account_results (all_results e) ! i)
            + last (isa_results (all_results e) ! i)
            + last (lisa_results (all_results e) ! i)"
      by (simp add: e)
  qed
qed

text \<open>
  Claim C8, as the code has it. When \<open>simulate\<close> returns for \<open>n \<ge> 1\<close> runs, each of the
  two values \<open>p_lower\<close> is a percentage: the number of qualifying runs divided by \<open>n\<close> and
  multiplied by \<open>100\<close>, a value between \<open>0\<close> and \<open>100\<close>. A run qualifies for the first one
  iff the sum of its last savings and current balances is strictly below \<open>0\<close>, for the
  second one iff the sum of its four last balances is strictly below the sum of the four
  initial balances.
\<close>

theorem percentage_below_reference:
  assumes "simulate cfg n g = Inr e" and "1 \<le> n"
  shows "p_lower_current_and_savings e =
           real (card {i. i < n \<and>
             last (savings_account_results (all_results e) ! i)
             + last (current_account_results (all_results e) ! i) < 0}) / real n * 100
         \<and> 0 \<le> p_lower_current_and_savings e \<and> p_lower_current_and_savings e \<le> 100
         \<and> p_lower_total e =
           real (card {i. i < n \<and>
             last (savings_account_results (all_results e) ! i)
             + last (current_account_results (all_results e) ! i)
             + last (isa_results (all_results e) ! i)
             + last (lisa_results (all_results e) ! i)
             < current_account_balance_now cfg + savings_account_balance_now cfg
               + isa_balance_now cfg + lisa_balance_now cfg}) / real n * 100
         \<and> 0 \<le> p_lower_total e \<and> p_lower_total e \<le> 100"
proof -
  note r = simulate_returned [OF assms(1)]
  have b: "{i. i < n \<and> current_and_savings_final e ! i < 0} =
        {i. i < n \<and> last (savings_account_results (all_results e) ! i)
             + last (current_account_results (all_results e) ! i) < 0}"
    using r(3) by auto
  have t: "{i. i < n \<and> total_final e ! i < current_account_balance_now cfg
               + savings_account_balance_now cfg + isa_balance_now cfg + lisa_balance_now cfg} =
        {i. i < n \<and> last (savings_account_results (all_results e) ! i)
             + last (current_account_results (all_results e) ! i)
             + last (isa_results (all_results e) ! i)
             + last (lisa_results (all_results e) ! i)
             < current_account_balance_now cfg + savings_account_balance_now cfg
               + isa_balance_now cfg + lisa_balance_now cfg}"
    using r(4) by auto
  from p_lower_value [OF r(5) r(1)] p_lower_value [OF r(6) r(2)]
  show ?thesis by (simp only: b t)
qed

section \<open>Zero spread, the constant scenario and the two-run example\<close>






subsection \<open>The closed form and rounding\<close>

text \<open>
  In exact arithmetic the two steps of the source are one step of the closed form of
  compound growth.
\<close>

lemma code_order_exact:
  "(let c = balance + payment in c + c * (rate::real)) = (balance + payment) * (1 + rate)"
  by (simp add: Let_def algebra_simps)

text \<open>
  In binary64 they are not. \<open>exponent\<close> brackets its argument between two powers of
  two, \<open>round64\<close> is off by half a unit in the last place at most, and the constant for
  \<open>np.sqrt(52)\<close> is the nearest binary64 number.
\<close>

lemma pow2_pos: "0 < pow2 e"
  by (simp add: pow2_def)

lemma exponent_bounds:
  assumes "0 < x"
  shows "pow2 (exponent x) \<le> x \<and> x < pow2 (exponent x + 1)"
proof (cases "1 \<le> x")
  case True
  let ?n = "\<lfloor>x\<rfloor>"
  have n: "0 < ?n" using True by simp
  have b: "1 \<le> bitlen ?n" using n by (simp add: bitlen_alt_def)
  from bitlen_bounds [OF n]
  have lo: "2 ^ nat (bitlen ?n - 1) \<le> ?n" and hi: "?n < 2 ^ nat (bitlen ?n)" by simp_all
  have "(of_int (2 ^ nat (bitlen ?n - 1)) :: rat) \<le> of_int ?n"
    using lo by (simp only: of_int_le_iff)
  also have "\<dots> \<le> x" by simp
  finally have 1: "pow2 (exponent x) \<le> x"
    using True b by (simp add: exponent_def pow2_def)
  have "?n + 1 \<le> 2 ^ nat (bitlen ?n)" using hi by simp
  then have "(of_int (?n + 1) :: rat) \<le> of_int (2 ^ nat (bitlen ?n))"
    by (simp only: of_int_le_iff)
  moreover have "x < of_int (?n + 1)" by linarith
  ultimately have "x < 2 ^ nat (bitlen ?n)" by simp
  then have 2: "x < pow2 (exponent x + 1)"
    using True b by (simp add: exponent_def pow2_def)
  from 1 2 show ?thesis ..
next
  case False
  with assms have x: "0 < x" "x < 1" by simp_all
  let ?k = "\<lceil>1 / x\<rceil>"
  let ?b = "bitlen (?k - 1)"
  have y: "1 < 1 / x" using x by simp
  then have k: "0 < ?k - 1" by linarith
  have b: "1 \<le> ?b" using k by (simp add: bitlen_alt_def)
  from bitlen_bounds [OF k]
  have lo: "2 ^ nat (?b - 1) \<le> ?k - 1" and hi: "?k - 1 < 2 ^ nat ?b" by simp_all
  have "?k \<le> 2 ^ nat ?b" using hi by simp
  then have "(of_int ?k :: rat) \<le> of_int (2 ^ nat ?b)" by (simp only: of_int_le_iff)
  then have "(of_int ?k :: rat) \<le> 2 ^ nat ?b" by simp
  with le_of_int_ceiling [of "1 / x"] have "1 / x \<le> 2 ^ nat ?b" by (rule order_trans)
  then have "1 \<le> 2 ^ nat ?b * x" using x by (simp add: field_simps)
  then have "1 / 2 ^ nat ?b \<le> x" by (simp add: field_simps)
  then have 1: "pow2 (exponent x) \<le> x"
    using False b by (simp add: exponent_def pow2_def)
  have "(of_int (2 ^ nat (?b - 1)) :: rat) \<le> of_int (?k - 1)"
    using lo by (simp only: of_int_le_iff)
  then have "(2 ^ nat (?b - 1) :: rat) \<le> of_int (?k - 1)" by simp
  moreover have "of_int (?k - 1) < 1 / x" by linarith
  ultimately have "2 ^ nat (?b - 1) < 1 / x" by (rule le_less_trans)
  then have "2 ^ nat (?b - 1) * x < 1" using x by (simp add: field_simps)
  then have "x < 1 / 2 ^ nat (?b - 1)" by (simp add: field_simps)
  moreover have "pow2 (exponent x + 1) = 1 / 2 ^ nat (?b - 1)"
  proof (cases "?b = 1")
    case True
    then show ?thesis using False by (simp add: exponent_def pow2_def)
  next
    case False
    with b have "1 < ?b" by simp
    then show ?thesis using \<open>\<not> 1 \<le> x\<close> by (simp add: exponent_def pow2_def nat_diff_distrib)
  qed
  ultimately have 2: "x < pow2 (exponent x + 1)" by simp
  from 1 2 show ?thesis ..
qed

lemma round_half_even_error: "\<bar>of_int (round_half_even x) - x\<bar> \<le> 1 / 2"
proof -
  have "of_int \<lfloor>x\<rfloor> \<le> x" "x < of_int \<lfloor>x\<rfloor> + 1" by linarith+
  then show ?thesis
    unfolding round_half_even_def Let_def by (auto simp: abs_le_iff)
qed

lemma round64_error:
  assumes "x \<noteq> 0"
  shows "\<bar>round64 x - x\<bar> \<le> pow2 (exponent \<bar>x\<bar> - 52) / 2"
proof -
  let ?p = "pow2 (exponent \<bar>x\<bar> - 52)"
  let ?m = "of_int (round_half_even (\<bar>x\<bar> / ?p)) :: rat"
  have p: "0 < ?p" by (rule pow2_pos)
  have "x = sgn x * \<bar>x\<bar>" by (simp add: sgn_mult_abs)
  then have "round64 x - x = sgn x * (?m * ?p) - sgn x * \<bar>x\<bar>"
    using assms by (simp add: round64_def Let_def mult.assoc)
  then have "\<bar>round64 x - x\<bar> = \<bar>sgn x * (?m * ?p - \<bar>x\<bar>)\<bar>"
    by (simp only: right_diff_distrib)
  also have "\<dots> = \<bar>?m * ?p - \<bar>x\<bar>\<bar>"
    using assms by (simp add: abs_mult)
  also have "\<dots> = \<bar>?m - \<bar>x\<bar> / ?p\<bar> * ?p"
  proof -
    have "?m * ?p - \<bar>x\<bar> = (?m - \<bar>x\<bar> / ?p) * ?p"
      using p by (simp add: left_diff_distrib)
    then have "\<bar>?m * ?p - \<bar>x\<bar>\<bar> = \<bar>?m - \<bar>x\<bar> / ?p\<bar> * \<bar>?p\<bar>"
      by (simp only: abs_mult)
    then show ?thesis using p by simp
  qed
  also have "\<dots> \<le> 1 / 2 * ?p"
    using round_half_even_error [of "\<bar>x\<bar> / ?p"] p by (intro mult_right_mono) simp_all
  finally show ?thesis by simp
qed

lemma sqrt52_binary64_nearest:
  "(sqrt52_binary64 - 1 / 2 ^ 51) ^ 2 < 52 \<and> 52 < (sqrt52_binary64 + 1 / 2 ^ 51) ^ 2"
  by (simp add: sqrt52_binary64_def power2_eq_square)

text \<open>With the spread \<open>0\<close> the variate drawn has no effect on the update.\<close>

lemma isa_week_binary64_zero_spread:
  "isa_week_binary64 prev payment mean 0 z = isa_week_binary64 prev payment mean 0 0"
  by (simp add: isa_week_binary64_def normal_binary64_def fdiv_def fmul_def round64_def)




text \<open>
  Claim C7. In the scenario where nothing moves, every run returns four lists of five
  entries, each constant at the initial balance of its account, and for every number
  \<open>n \<ge> 1\<close> of runs the mean of the final totals is \<open>3100\<close>.
\<close>

theorem constant_scenario:
  "(\<forall>g. map_sum id fst (run_single_simulation scenario_config g) =
          Inr \<lparr>savings_account = replicate 5 1000, current_account = replicate 5 100,
               lisa = replicate 5 1000, isa = replicate 5 1000\<rparr>) \<and>
   (\<forall>n g. 1 \<le> n \<longrightarrow> map_sum id mean_total (simulate scenario_config n g) = Inr 3100)"
  by (simp add: scenario_run scenario_accounts_def scenario_simulate)

theorem constant_scenario_witness:
  "(1::nat) \<le> 7 \<and> map_sum id mean_total (simulate scenario_config 7 example_draws) = Inr 3100"
  using constant_scenario by simp

lemma coin_run:
  "run_single_simulation coin_config g =
     Inr (\<lparr>savings_account = [0, - g 0], current_account = [0, 0], lisa = [0, 0], isa = [0, 0]\<rparr>,
          advance 3 g)"
proof -
  have "1 \<le> n_weeks coin_config" "stdevs_nonneg coin_config"
    by (simp_all add: coin_config_def stdevs_nonneg_def)
  then have "run_single_simulation coin_config g =
      Inr (trajectory coin_config g, advance (3 * (nat (n_weeks coin_config) - 1)) g)"
    by (intro run_ok) simp_all
  moreover have "nat (n_weeks coin_config) = Suc (Suc 0)" by (simp add: coin_config_def)
  moreover have "savings_at coin_config g (Suc 0) = - g 0" "isa_at coin_config g (Suc 0) = 0"
    "lisa_at coin_config g (Suc 0) = 0"
    by (simp_all add: coin_config_def savings_next_def isa_next_def lisa_next_def normal_value_def)
  moreover have "savings_at coin_config g 0 = 0" "isa_at coin_config g 0 = 0"
    "lisa_at coin_config g 0 = 0" "current_account_balance_now coin_config = 0"
    by (simp_all add: coin_config_def)
  ultimately show ?thesis
    by (simp add: trajectory_def)
qed

lemma coin_simulate: "simulate coin_config 2 coin_draws = Inr coin_summary"
proof -
  have "run_all coin_config (Suc (Suc 0))
      (\<lparr>savings_account_results = [], current_account_results = [],
        isa_results = [], lisa_results = []\<rparr>, coin_draws) =
     Inr (\<lparr>savings_account_results = [[0, - 1], [0, 1]], current_account_results = [[0, 0], [0, 0]],
         isa_results = [[0, 0], [0, 0]], lisa_results = [[0, 0], [0, 0]]\<rparr>, advance 6 coin_draws)"
    by (simp add: coin_run append_results_def advance_advance advance_apply coin_draws_def)
  moreover have "[0..<2] = [0, Suc 0]" by (simp add: upt_conv_Cons numeral_2_eq_2)
  moreover have "current_account_balance_now coin_config + savings_account_balance_now coin_config
                  + isa_balance_now coin_config + lisa_balance_now coin_config = 0"
    by (simp add: coin_config_def)
  ultimately show ?thesis
    unfolding simulate_def
    by (simp add: numeral_2_eq_2 last_item_def getitem_def p_lower_def np_mean_def
        coin_summary_def Let_def)
qed

text \<open>
  Claim C8 as stated (the computed value lies between \<open>0\<close> and \<open>1\<close> and is the count
  divided by \<open>n\<close>) fails: with two runs of which one ends below zero, the value computed
  is \<open>50\<close>.
\<close>

theorem fraction_in_unit_interval_counterexample:
  "map_sum id p_lower_current_and_savings (simulate coin_config 2 coin_draws) = Inr 50 \<and>
   map_sum id (in_unit_interval \<circ> p_lower_current_and_savings) (simulate coin_config 2 coin_draws)
     = Inr False"
  by (simp add: coin_simulate coin_summary_def in_unit_interval_def)

theorem percentage_below_reference_witness:
  "simulate coin_config 2 coin_draws = Inr coin_summary \<and> (1::nat) \<le> 2 \<and>
   p_lower_current_and_savings coin_summary = 50 \<and> p_lower_total coin_summary = 50 \<and>
   card {i. i < (2::nat) \<and>
           last (savings_account_results (all_results coin_summary) ! i)
           + last (current_account_results (all_results coin_summary) ! i) < 0} = 1"
proof -
  have n: "(1::nat) \<le> 2" by simp
  from percentage_below_reference [OF coin_simulate n] coin_simulate
  show ?thesis by (simp add: coin_summary_def)
qed

end
